theory Spec2Isabelle
  imports
    Complex_Main
    "HOL-Library.Word"
    "HOL-Library.Char_ord"
    "HOL-Library.List_Lexorder"
    "HOL-Library.Multiset"
begin

section \<open>Glow Up backend: a shallow embedding of \<^verbatim>\<open>main.py\<close>\<close>

text \<open>
  The service keeps three SQLite tables (posts, ratings, reactions) and a directory of
  uploaded images. Every request handler of \<^verbatim>\<open>main.py\<close> becomes a function that
  takes the stored state and returns the response together with the state afterwards. A
  response is \<open>Inl\<close> of an error (an \<^verbatim>\<open>HTTPException\<close> the handler raises, or a
  database error that FastAPI turns into a 500) or \<open>Inr\<close> of the returned value.

  What the handlers draw from their environment enters as arguments: the values of
  \<^verbatim>\<open>uuid.uuid4()\<close> (as 128-bit words), the string of
  \<^verbatim>\<open>datetime.utcnow().isoformat()\<close>, and the SHA-256 digest function of
  \<^verbatim>\<open>hashlib\<close> (as a function \<open>sha256\<close> from byte strings to 256-bit words, about which
  nothing is assumed). Strings are byte lists: a Python \<^verbatim>\<open>str\<close> is taken in its UTF-8
  encoding, which is also how SQLite stores and compares \<^verbatim>\<open>TEXT\<close>, so
  \<^verbatim>\<open>pin.encode()\<close> is the identity.
\<close>

subsection \<open>Errors\<close>

datatype error =
    HTTPException nat string
  | IntegrityError string

subsection \<open>Rows of the three tables (\<^verbatim>\<open>init_db\<close>)\<close>

record post =
  p_id :: string
  username :: string
  caption :: string
  category :: string
  image_url :: string
  share_token :: string
  pin_hash :: "string option"
  created_at :: string

record rating =
  r_id :: int
  r_post_id :: string
  rater_name :: string
  score :: int
  r_created_at :: string

record reaction =
  x_id :: int
  x_post_id :: string
  emoji :: string
  x_created_at :: string

text \<open>
  The stored state: the tables in rowid order, the \<^verbatim>\<open>AUTOINCREMENT\<close> counters of
  the ratings and reactions tables (SQLite's \<^verbatim>\<open>sqlite_sequence\<close>), and the files of the
  upload directory, by file name. Failures of the operating system (a full disk, a
  missing permission) are outside the model.
\<close>

record state =
  posts :: "post list"
  ratings :: "rating list"
  ratings_seq :: int
  reactions :: "reaction list"
  reactions_seq :: int
  uploads :: "string \<rightharpoonup> string"

definition init_db :: "(string \<rightharpoonup> string) \<Rightarrow> state" where
  "init_db files =
     \<lparr>posts = [], ratings = [], ratings_seq = 0, reactions = [], reactions_seq = 0,
      uploads = files\<rparr>"

subsection \<open>Python and library functions the handlers call\<close>

text \<open>Truthiness of an \<^verbatim>\<open>Optional[str]\<close>: \<^verbatim>\<open>None\<close> and the empty string are false.\<close>

fun truthy :: "string option \<Rightarrow> bool" where
  "truthy None = False"
| "truthy (Some v) = (v \<noteq> [])"

definition startswith :: "string \<Rightarrow> string \<Rightarrow> bool" where
  "startswith v prefix = (take (length prefix) v = prefix)"

text \<open>\<^verbatim>\<open>name.rsplit(".", 1)[-1]\<close>: what follows the last dot (all of it when there is none).\<close>

definition rsplit_last :: "string \<Rightarrow> string" where
  "rsplit_last name = rev (takeWhile (\<lambda>c. c \<noteq> CHR ''.'') (rev name))"

definition hex_digit :: "nat \<Rightarrow> char" where
  "hex_digit d = ''0123456789abcdef'' ! (d mod 16)"

text \<open>\<open>hex_of n v\<close>: the lowest \<open>n\<close> hexadecimal digits of \<open>v\<close>, most significant first.\<close>

fun hex_of :: "nat \<Rightarrow> nat \<Rightarrow> string" where
  "hex_of 0 v = []"
| "hex_of (Suc n) v = hex_of n (v div 16) @ [hex_digit v]"

text \<open>
  \<^verbatim>\<open>str(uuid)\<close>: the 32 hexadecimal digits of the 128-bit value, grouped 8-4-4-4-12
  with dashes.
\<close>

definition str_uuid :: "128 word \<Rightarrow> string" where
  "str_uuid u =
     (let h = hex_of 32 (unat u)
      in take 8 h @ ''-'' @ take 4 (drop 8 h) @ ''-'' @ take 4 (drop 12 h) @ ''-'' @
         take 4 (drop 16 h) @ ''-'' @ drop 20 h)"

text \<open>\<^verbatim>\<open>hashlib.sha256(data).hexdigest()\<close>: the 64 hexadecimal digits of the digest.\<close>

definition hexdigest :: "256 word \<Rightarrow> string" where
  "hexdigest d = hex_of 64 (unat d)"

definition hash_pin :: "(string \<Rightarrow> 256 word) \<Rightarrow> string \<Rightarrow> string" where
  "hash_pin sha256 pin = hexdigest (sha256 pin)"

subsection \<open>Floating point: SQLite's \<^verbatim>\<open>AVG\<close> and Python's \<^verbatim>\<open>round\<close>\<close>

text \<open>
  A finite IEEE binary64 number is represented by its exact rational value.
  \<open>double_of_rat q\<close> is the binary64 number nearest to \<open>q\<close>, ties to the even
  significand (53 significant bits). Exponent limits are left out: an average of 64-bit
  integers is zero or lies between \<open>2\<^sup>-\<^sup>6\<^sup>3\<close> and \<open>2\<^sup>6\<^sup>3\<close> in magnitude.
\<close>

definition round_half_even :: "rat \<Rightarrow> int" where
  "round_half_even q =
     (let f = \<lfloor>q\<rfloor>; d = q - of_int f
      in if d < 1 / 2 then f else if 1 / 2 < d then f + 1 else if even f then f else f + 1)"

fun bitlen :: "nat \<Rightarrow> nat" where
  "bitlen n = (if n = 0 then 0 else Suc (bitlen (n div 2)))"

text \<open>\<open>ilog2 q\<close> is \<open>\<lfloor>log\<^sub>2 q\<rfloor>\<close> for a positive rational \<open>q\<close>.\<close>

definition ilog2 :: "rat \<Rightarrow> int" where
  "ilog2 q =
     (if 1 \<le> q then int (bitlen (nat \<lfloor>q\<rfloor>)) - 1
      else - int (bitlen (nat (\<lceil>1 / q\<rceil> - 1))))"

definition pow2 :: "int \<Rightarrow> rat" where
  "pow2 k = (if 0 \<le> k then 2 ^ nat k else 1 / 2 ^ nat (- k))"

definition double_of_rat :: "rat \<Rightarrow> rat" where
  "double_of_rat q =
     (if q = 0 then 0
      else let e = ilog2 \<bar>q\<bar>; m = round_half_even (\<bar>q\<bar> * pow2 (52 - e))
           in sgn q * of_int m * pow2 (e - 52))"

text \<open>
  \<^verbatim>\<open>AVG(score)\<close> over integer rows: \<^verbatim>\<open>NULL\<close> when there is no row, otherwise the
  sum (as a double) divided by the count (as a double), in binary64 arithmetic.
\<close>

definition sql_avg :: "int list \<Rightarrow> rat option" where
  "sql_avg xs =
     (if xs = [] then None
      else Some (double_of_rat
             (double_of_rat (of_int (sum_list xs)) / double_of_rat (of_nat (length xs)))))"

text \<open>
  \<^verbatim>\<open>round(x, ndigits)\<close> of CPython for a float and \<open>ndigits \<ge> 0\<close>: the exact value of
  the double is rounded to \<open>ndigits\<close> decimals, ties to even, and the decimal is converted
  back to the nearest double.
\<close>

definition py_round :: "rat \<Rightarrow> nat \<Rightarrow> rat" where
  "py_round x ndigits =
     double_of_rat (of_int (round_half_even (x * 10 ^ ndigits)) / 10 ^ ndigits)"

subsection \<open>The SQL statements\<close>

text \<open>
  \<^verbatim>\<open>SELECT ... FROM posts WHERE share_token=? OR id=?\<close> followed by
  \<^verbatim>\<open>fetchone()\<close>: the first matching row in rowid order, or \<^verbatim>\<open>None\<close>. (SQL leaves
  the order open; \<open>select_post_unique\<close> below shows that in every reachable state at
  most one row matches, so the choice does not matter there.)
\<close>

definition select_post :: "string \<Rightarrow> post list \<Rightarrow> post option" where
  "select_post token ps = find (\<lambda>p. share_token p = token \<or> p_id p = token) ps"

text \<open>
  \<^verbatim>\<open>INSERT INTO posts\<close>: the table declares \<^verbatim>\<open>id TEXT PRIMARY KEY\<close> and
  \<^verbatim>\<open>share_token TEXT UNIQUE NOT NULL\<close>, so a row that repeats an id or a share token
  is refused with \<^verbatim>\<open>sqlite3.IntegrityError\<close>.
\<close>

definition insert_post :: "post \<Rightarrow> post list \<Rightarrow> error + post list" where
  "insert_post row ps =
     (if p_id row \<in> set (map p_id ps) then Inl (IntegrityError ''UNIQUE constraint failed: posts.id'')
      else if share_token row \<in> set (map share_token ps)
        then Inl (IntegrityError ''UNIQUE constraint failed: posts.share_token'')
      else Inr (ps @ [row]))"

text \<open>
  \<^verbatim>\<open>INSERT INTO ratings\<close>: the id comes from the \<^verbatim>\<open>AUTOINCREMENT\<close> counter, and
  the table's \<^verbatim>\<open>CHECK(score BETWEEN 1 AND 10)\<close> refuses any other score.
\<close>

definition insert_rating :: "string \<Rightarrow> string \<Rightarrow> int \<Rightarrow> string \<Rightarrow> state \<Rightarrow> error + state" where
  "insert_rating pid name sc now s =
     (if 1 \<le> sc \<and> sc \<le> 10
      then Inr (s\<lparr>ratings := ratings s @
                   [\<lparr>r_id = ratings_seq s + 1, r_post_id = pid, rater_name = name, score = sc,
                     r_created_at = now\<rparr>],
                 ratings_seq := ratings_seq s + 1\<rparr>)
      else Inl (IntegrityError ''CHECK constraint failed: score BETWEEN 1 AND 10''))"

definition insert_reaction :: "string \<Rightarrow> string \<Rightarrow> string \<Rightarrow> state \<Rightarrow> state" where
  "insert_reaction pid e now s =
     s\<lparr>reactions := reactions s @
          [\<lparr>x_id = reactions_seq s + 1, x_post_id = pid, emoji = e, x_created_at = now\<rparr>],
       reactions_seq := reactions_seq s + 1\<rparr>"

text \<open>
  \<^verbatim>\<open>get_db\<close> opens the connection with \<^verbatim>\<open>sqlite3.connect(DB_PATH)\<close> and sets a row
  factory, nothing else. SQLite enforces foreign keys only on a connection that has run
  \<^verbatim>\<open>PRAGMA foreign_keys = ON\<close>; the default is off. So on the connections of this
  program the \<^verbatim>\<open>ON DELETE CASCADE\<close> clauses of the ratings and reactions tables are
  declared and not enforced.
\<close>

definition foreign_keys :: bool where
  "foreign_keys = False"

text \<open>
  \<^verbatim>\<open>DELETE FROM posts WHERE id=?\<close> on a connection whose foreign-key enforcement is
  \<open>fk\<close>: the cascade to ratings and reactions happens only when it is on.
\<close>

definition sql_delete_post :: "bool \<Rightarrow> string \<Rightarrow> state \<Rightarrow> state" where
  "sql_delete_post fk pid s =
     (if fk
      then s\<lparr>posts := filter (\<lambda>p. p_id p \<noteq> pid) (posts s),
             ratings := filter (\<lambda>r. r_post_id r \<noteq> pid) (ratings s),
             reactions := filter (\<lambda>x. x_post_id x \<noteq> pid) (reactions s)\<rparr>
      else s\<lparr>posts := filter (\<lambda>p. p_id p \<noteq> pid) (posts s)\<rparr>)"

text \<open>
  \<^verbatim>\<open>SELECT emoji, COUNT(*) ... GROUP BY emoji\<close>: one row per distinct emoji (compared
  byte for byte) with its number of occurrences.
\<close>

definition group_count :: "string list \<Rightarrow> (string \<times> nat) list" where
  "group_count es = map (\<lambda>e. (e, count_list es e)) (remdups es)"

text \<open>
  \<^verbatim>\<open>SELECT * FROM posts ORDER BY created_at DESC\<close>: \<^verbatim>\<open>TEXT\<close> is compared byte for
  byte (the lexicographic order of strings); rows with equal timestamps come in an order
  SQL leaves open.
\<close>

definition order_by_created_at_desc :: "post list \<Rightarrow> post list" where
  "order_by_created_at_desc ps = rev (sort_key created_at ps)"

subsection \<open>\<^verbatim>\<open>post_stats\<close> and \<^verbatim>\<open>serialize_post\<close>\<close>

record stats =
  avg_rating :: "rat option"
  total_ratings :: nat
  reactions_of :: "string \<rightharpoonup> nat"

text \<open>
  \<^verbatim>\<open>round(stats["avg"], 1) if stats["avg"] else None\<close>: the test is Python truthiness,
  false for \<^verbatim>\<open>None\<close> and for \<open>0.0\<close>. The field \<open>reactions_of\<close> is the dictionary under
  the key \<^verbatim>\<open>"reactions"\<close>.
\<close>

definition post_stats :: "string \<Rightarrow> state \<Rightarrow> stats" where
  "post_stats pid s =
     (let scores = map score (filter (\<lambda>r. r_post_id r = pid) (ratings s));
          rows = group_count (map emoji (filter (\<lambda>x. x_post_id x = pid) (reactions s)))
      in \<lparr>avg_rating =
            (case sql_avg scores of
               None \<Rightarrow> None
             | Some a \<Rightarrow> if a = 0 then None else Some (py_round a 1)),
          total_ratings = length scores,
          reactions_of = map_of rows\<rparr>)"

text \<open>The post object of the responses: the row's public columns and the stats.\<close>

record post_object =
  o_id :: string
  o_username :: string
  o_caption :: string
  o_category :: string
  o_image_url :: string
  o_share_token :: string
  o_created_at :: string
  o_avg_rating :: "rat option"
  o_total_ratings :: nat
  o_reactions :: "string \<rightharpoonup> nat"

definition serialize_post :: "post \<Rightarrow> string \<Rightarrow> state \<Rightarrow> post_object" where
  "serialize_post row base_url s =
     (let st = post_stats (p_id row) s
      in \<lparr>o_id = p_id row,
          o_username = username row,
          o_caption = caption row,
          o_category = category row,
          o_image_url = base_url @ ''/uploads/'' @ image_url row,
          o_share_token = share_token row,
          o_created_at = created_at row,
          o_avg_rating = avg_rating st,
          o_total_ratings = total_ratings st,
          o_reactions = reactions_of st\<rparr>)"

subsection \<open>The request handlers\<close>

record UploadFile =
  content_type :: string
  filename :: string
  file_bytes :: string

record created =
  c_id :: string
  c_share_token :: string
  c_share_url :: string

text \<open>
  \<^verbatim>\<open>POST /fits\<close>. \<open>u1\<close> and \<open>u2\<close> are the two values of \<^verbatim>\<open>uuid.uuid4()\<close>, \<open>now\<close> the
  timestamp. The uploaded part arrives with its declared content type, its file name and
  its bytes, the first two as strings. The file is written before the row is inserted,
  so it stays when the insert fails.
\<close>

definition create_post ::
  "(string \<Rightarrow> 256 word) \<Rightarrow> 128 word \<Rightarrow> 128 word \<Rightarrow> string \<Rightarrow>
   string \<Rightarrow> string \<Rightarrow> string \<Rightarrow> string option \<Rightarrow> UploadFile \<Rightarrow> state \<Rightarrow>
   (error + created) \<times> state" where
  "create_post sha256 u1 u2 now uname cap cat pin img s =
     (if \<not> startswith (content_type img) ''image/''
      then (Inl (HTTPException 400 ''File must be an image''), s)
      else
        let post_id = str_uuid u1;
            token = take 8 (str_uuid u2);
            ext = (if CHR ''.'' \<in> set (filename img) then rsplit_last (filename img)
                   else ''jpg'');
            fname = post_id @ ''.'' @ ext;
            s1 = s\<lparr>uploads := (uploads s)(fname \<mapsto> file_bytes img)\<rparr>;
            ph = (if truthy pin then map_option (hash_pin sha256) pin else None);
            row = \<lparr>p_id = post_id, username = uname, caption = cap, category = cat,
                   image_url = fname, share_token = token, pin_hash = ph, created_at = now\<rparr>
        in case insert_post row (posts s1) of
             Inl e \<Rightarrow> (Inl e, s1)
           | Inr ps \<Rightarrow>
               (Inr \<lparr>c_id = post_id, c_share_token = token, c_share_url = ''/rate/'' @ token\<rparr>,
                s1\<lparr>posts := ps\<rparr>))"

text \<open>\<^verbatim>\<open>GET /fits\<close>.\<close>

definition get_posts :: "string \<Rightarrow> state \<Rightarrow> post_object list" where
  "get_posts request_base s =
     map (\<lambda>r. serialize_post r request_base s) (order_by_created_at_desc (posts s))"

text \<open>\<^verbatim>\<open>GET /fits/{token}\<close>.\<close>

definition get_post :: "string \<Rightarrow> string \<Rightarrow> state \<Rightarrow> error + post_object" where
  "get_post token request_base s =
     (case select_post token (posts s) of
        None \<Rightarrow> Inl (HTTPException 404 ''Post not found'')
      | Some row \<Rightarrow> Inr (serialize_post row request_base s))"

text \<open>
  \<^verbatim>\<open>POST /fits/{token}/rate\<close>. The response is the stats after the insert (its constant
  \<^verbatim>\<open>"message"\<close> entry is left out).
\<close>

definition rate_post ::
  "string \<Rightarrow> string \<Rightarrow> int \<Rightarrow> string \<Rightarrow> state \<Rightarrow> (error + stats) \<times> state" where
  "rate_post now token sc name s =
     (if \<not> (1 \<le> sc \<and> sc \<le> 10) then (Inl (HTTPException 400 ''Score must be 1-10''), s)
      else case select_post token (posts s) of
             None \<Rightarrow> (Inl (HTTPException 404 ''Post not found''), s)
           | Some row \<Rightarrow>
               (case insert_rating (p_id row) name sc now s of
                  Inl e \<Rightarrow> (Inl e, s)
                | Inr s1 \<Rightarrow> (Inr (post_stats (p_id row) s1), s1)))"

text \<open>
  \<^verbatim>\<open>POST /fits/{token}/react\<close>. The response is the dictionary of reaction counts after
  the insert.
\<close>

definition react_post ::
  "string \<Rightarrow> string \<Rightarrow> string \<Rightarrow> state \<Rightarrow> (error + (string \<rightharpoonup> nat)) \<times> state" where
  "react_post now token e s =
     (case select_post token (posts s) of
        None \<Rightarrow> (Inl (HTTPException 404 ''Post not found''), s)
      | Some row \<Rightarrow>
          (let s1 = insert_reaction (p_id row) e now s
           in (Inr (reactions_of (post_stats (p_id row) s1)), s1)))"

text \<open>
  The PIN check of \<^verbatim>\<open>delete_post\<close>: with a truthy stored hash, the request is refused
  when the supplied PIN is \<^verbatim>\<open>None\<close> or empty, or when its hash differs.
\<close>

fun pin_rejected :: "(string \<Rightarrow> 256 word) \<Rightarrow> string option \<Rightarrow> string option \<Rightarrow> bool" where
  "pin_rejected sha256 None pin = False"
| "pin_rejected sha256 (Some h) None = (h \<noteq> [])"
| "pin_rejected sha256 (Some h) (Some p) = (h \<noteq> [] \<and> (p = [] \<or> hash_pin sha256 p \<noteq> h))"

text \<open>\<^verbatim>\<open>DELETE /fits/{token}\<close>.\<close>

definition delete_post ::
  "(string \<Rightarrow> 256 word) \<Rightarrow> string \<Rightarrow> string option \<Rightarrow> state \<Rightarrow> (error + string) \<times> state" where
  "delete_post sha256 token pin s =
     (case select_post token (posts s) of
        None \<Rightarrow> (Inl (HTTPException 404 ''Post not found''), s)
      | Some row \<Rightarrow>
          if pin_rejected sha256 (pin_hash row) pin
          then (Inl (HTTPException 403 ''Invalid PIN''), s)
          else
            let s1 = (if image_url row \<in> dom (uploads s)
                      then s\<lparr>uploads := (uploads s)(image_url row := None)\<rparr> else s)
            in (Inr ''Post deleted'', sql_delete_post foreign_keys (p_id row) s1))"

subsection \<open>Request sequences and reachable states\<close>

datatype request =
    Create "128 word" "128 word" string string string string "string option" UploadFile
  | Rate string string int string
  | React string string string
  | Delete string "string option"

fun step :: "(string \<Rightarrow> 256 word) \<Rightarrow> request \<Rightarrow> state \<Rightarrow> state" where
  "step sha256 (Create u1 u2 now uname cap cat pin img) s =
     snd (create_post sha256 u1 u2 now uname cap cat pin img s)"
| "step sha256 (Rate now token sc name) s = snd (rate_post now token sc name s)"
| "step sha256 (React now token e) s = snd (react_post now token e s)"
| "step sha256 (Delete token pin) s = snd (delete_post sha256 token pin s)"

text \<open>
  The states of the service: the empty tables that \<^verbatim>\<open>init_db\<close> creates (beside whatever
  files the upload directory holds), and every state a request leads to from there.
\<close>

inductive reachable :: "(string \<Rightarrow> 256 word) \<Rightarrow> state \<Rightarrow> bool" for sha256 where
  init: "reachable sha256 (init_db files)"
| step: "reachable sha256 s \<Longrightarrow> reachable sha256 (step sha256 r s)"

subsection \<open>Invariants of the stored state\<close>

text \<open>The uniqueness invariant of the posts table: ids and share tokens are each distinct.\<close>

definition unique_ids :: "state \<Rightarrow> bool" where
  "unique_ids s = (distinct (map p_id (posts s)) \<and> distinct (map share_token (posts s)))"

text \<open>
  What every reachable state satisfies beyond that: an id is the 36 characters of a
  UUID and a share token 8 characters, a stored PIN hash is never the empty string, and
  every stored score lies between 1 and 10.
\<close>

definition wf_state :: "state \<Rightarrow> bool" where
  "wf_state s =
     (unique_ids s \<and>
      list_all (\<lambda>p. length (p_id p) = 36 \<and> length (share_token p) = 8 \<and> pin_hash p \<noteq> Some [])
        (posts s) \<and>
      list_all (\<lambda>r. 1 \<le> score r \<and> score r \<le> 10) (ratings s))"

subsection \<open>Sample data for the worked examples\<close>

text \<open>
  A stand-in for the digest function in the examples (the byte sum of the message); the
  theorems hold for every digest function.
\<close>

definition byte_sum :: "string \<Rightarrow> 256 word" where
  "byte_sum m = of_nat (sum_list (map of_char m))"

definition sample_image :: UploadFile where
  "sample_image = \<lparr>content_type = ''image/png'', filename = ''fit.png'', file_bytes = ''PNG''\<rparr>"

text \<open>One post without a PIN, created in the empty database.\<close>

definition one_post :: state where
  "one_post =
     step byte_sum (Create 1 2 ''2024-05-01T10:00:00'' ''ada'' ''hello'' ''fit'' None sample_image)
       (init_db Map.empty)"

text \<open>One post protected by the PIN 1234.\<close>

definition pin_post :: state where
  "pin_post =
     step byte_sum
       (Create 1 2 ''2024-05-01T10:00:00'' ''ada'' ''hello'' ''fit'' (Some ''1234'') sample_image)
       (init_db Map.empty)"

text \<open>A second post beside the first, created later and protected by a PIN.\<close>

definition two_posts :: state where
  "two_posts =
     step byte_sum
       (Create 3 0x5e0000000000000000000000000004 ''2024-05-02T09:30:00'' ''bea'' [] ''nails''
          (Some ''1234'') sample_image)
       one_post"

text \<open>The sample post after one rating and one reaction.\<close>

definition rated_post :: state where
  "rated_post =
     step byte_sum (React ''2024-05-01T12:00:00'' (take 8 (str_uuid 2)) ''fire'')
       (step byte_sum (Rate ''2024-05-01T11:00:00'' (take 8 (str_uuid 2)) 8 ''bob'') one_post)"

text \<open>The emoji of the examples, in UTF-8: U+1F525 (fire) and U+1F60D (heart eyes).\<close>

definition fire :: string where
  "fire = [CHR 0xF0, CHR 0x9F, CHR 0x94, CHR 0xA5]"

definition heart_eyes :: string where
  "heart_eyes = [CHR 0xF0, CHR 0x9F, CHR 0x98, CHR 0x8D]"

text \<open>
  The sample post after the ratings 8, 6 and 10 and the reactions fire, heart eyes and
  fire again.
\<close>

definition glow_post :: state where
  "glow_post =
     foldl (\<lambda>s r. step byte_sum r s) one_post
       [Rate ''2024-05-01T11:00:00'' (take 8 (str_uuid 2)) 8 ''bob'',
        Rate ''2024-05-01T11:05:00'' (take 8 (str_uuid 2)) 6 ''cy'',
        Rate ''2024-05-01T11:10:00'' (str_uuid 1) 10 ''Anonymous'',
        React ''2024-05-01T12:00:00'' (take 8 (str_uuid 2)) fire,
        React ''2024-05-01T12:01:00'' (take 8 (str_uuid 2)) heart_eyes,
        React ''2024-05-01T12:02:00'' (str_uuid 1) fire]"

section \<open>Properties\<close>

subsection \<open>Identifiers, tokens and hashes\<close>

lemma hex_of_numeral:
  "hex_of (numeral k) v = hex_of (pred_numeral k) (v div 16) @ [hex_digit v]"
proof -
  have "hex_of (Suc (pred_numeral k)) v = hex_of (pred_numeral k) (v div 16) @ [hex_digit v]"
    by simp
  then show ?thesis by (simp only: numeral_eq_Suc [symmetric])
qed

lemma hex_of_1: "hex_of 1 v = [hex_digit v]"
  by (simp only: One_nat_def hex_of.simps append_Nil)

lemma length_hex_of [simp]: "length (hex_of n v) = n"
  by (induction n arbitrary: v) simp_all

lemma length_str_uuid [simp]: "length (str_uuid u) = 36"
  by (simp add: str_uuid_def Let_def)

lemma length_hash_pin [simp]: "length (hash_pin sha p) = 64"
  by (simp add: hash_pin_def hexdigest_def)

lemma hash_pin_nonempty [simp]: "hash_pin sha p \<noteq> []"
  using length_hash_pin [of sha p] by (metis length_0_conv zero_neq_numeral)

subsection \<open>The lookup by token or id\<close>

lemma select_post_SomeD:
  "select_post t ps = Some q \<Longrightarrow> q \<in> set ps \<and> (share_token q = t \<or> p_id q = t)"
  by (auto simp: select_post_def find_Some_iff)

text \<open>In a well-formed state at most one row matches a token, whatever the scan order.\<close>

lemma select_post_unique:
  assumes wf: "wf_state s" and q: "select_post t (posts s) = Some q"
    and p: "p \<in> set (posts s)" and m: "share_token p = t \<or> p_id p = t"
  shows "p = q"
proof -
  from q have qs: "q \<in> set (posts s)" and qm: "share_token q = t \<or> p_id q = t"
    by (auto dest: select_post_SomeD)
  from wf have it: "inj_on share_token (set (posts s))" and ii: "inj_on p_id (set (posts s))"
    by (simp_all add: wf_state_def unique_ids_def distinct_map)
  from wf p qs have len: "length (p_id p) = 36" "length (share_token p) = 8"
    "length (p_id q) = 36" "length (share_token q) = 8"
    by (auto simp: wf_state_def list_all_iff)
  from m qm show ?thesis
  proof (elim disjE)
    assume "share_token p = t" "share_token q = t"
    with it p qs show ?thesis by (auto dest: inj_onD)
  next
    assume "p_id p = t" "p_id q = t"
    with ii p qs show ?thesis by (auto dest: inj_onD)
  next
    assume "share_token p = t" "p_id q = t"
    with len show ?thesis by auto
  next
    assume "p_id p = t" "share_token q = t"
    with len show ?thesis by auto
  qed
qed

lemma select_post_member:
  assumes wf: "wf_state s" and p: "p \<in> set (posts s)" and m: "share_token p = t \<or> p_id p = t"
  shows "select_post t (posts s) = Some p"
proof (cases "select_post t (posts s)")
  case None
  with p m show ?thesis by (auto simp: select_post_def find_None_iff)
next
  case (Some q)
  with select_post_unique [OF wf Some p m] show ?thesis by simp
qed

subsection \<open>Every reachable state is well-formed\<close>

lemma wf_init: "wf_state (init_db files)"
  by (simp add: wf_state_def unique_ids_def init_db_def)

lemma wf_create: "wf_state s \<Longrightarrow> wf_state (snd (create_post sha u1 u2 now un cap cat pin img s))"
  by (cases pin)
    (auto simp: wf_state_def unique_ids_def create_post_def insert_post_def Let_def)

lemma wf_rate: "wf_state s \<Longrightarrow> wf_state (snd (rate_post now t sc name s))"
  by (auto simp: wf_state_def unique_ids_def rate_post_def insert_rating_def split: option.splits)

lemma wf_react: "wf_state s \<Longrightarrow> wf_state (snd (react_post now t e s))"
  by (auto simp: wf_state_def unique_ids_def react_post_def insert_reaction_def Let_def
        split: option.splits)

lemma wf_delete: "wf_state s \<Longrightarrow> wf_state (snd (delete_post sha t pin s))"
  by (auto simp: wf_state_def unique_ids_def delete_post_def sql_delete_post_def Let_def
        distinct_map_filter list_all_iff split: option.splits)

lemma wf_step: "wf_state s \<Longrightarrow> wf_state (step sha r s)"
  by (cases r) (simp_all add: wf_create wf_rate wf_react wf_delete)

lemma reachable_wf: "reachable sha s \<Longrightarrow> wf_state s"
  by (induction rule: reachable.induct) (simp_all add: wf_init wf_step)

subsection \<open>The sample states\<close>

lemma reachable_one_post: "reachable byte_sum one_post"
  unfolding one_post_def by (rule reachable.step, rule reachable.init)

lemma reachable_pin_post: "reachable byte_sum pin_post"
  unfolding pin_post_def by (rule reachable.step, rule reachable.init)

lemma posts_one_post:
  "posts one_post =
     [\<lparr>p_id = str_uuid 1, username = ''ada'', caption = ''hello'', category = ''fit'',
       image_url = str_uuid 1 @ ''.png'', share_token = take 8 (str_uuid 2), pin_hash = None,
       created_at = ''2024-05-01T10:00:00''\<rparr>]"
  by (simp add: one_post_def create_post_def insert_post_def init_db_def sample_image_def
        startswith_def rsplit_last_def Let_def)

lemma posts_pin_post:
  "posts pin_post =
     [\<lparr>p_id = str_uuid 1, username = ''ada'', caption = ''hello'', category = ''fit'',
       image_url = str_uuid 1 @ ''.png'', share_token = take 8 (str_uuid 2),
       pin_hash = Some (hash_pin byte_sum ''1234''), created_at = ''2024-05-01T10:00:00''\<rparr>]"
  by (simp add: pin_post_def create_post_def insert_post_def init_db_def sample_image_def
        startswith_def rsplit_last_def Let_def)

subsection \<open>Rating submission\<close>

text \<open>
  Claim C2. For every integer score below 1 or above 10, \<^verbatim>\<open>rate_post\<close> answers 400
  and the whole stored state (posts, ratings, reactions, files) is the one before the
  call, whether or not the token resolves to a post: the score is checked before the
  database is touched.
\<close>

theorem rate_post_rejects_out_of_range:
  "sc < 1 \<or> 10 < sc \<Longrightarrow>
   rate_post now token sc name s = (Inl (HTTPException 400 ''Score must be 1-10''), s)"
  by (auto simp: rate_post_def)

text \<open>
  Score 11 against the share token of the sample post, and score 0 against a token that
  resolves to nothing.
\<close>

theorem rate_post_rejects_out_of_range_witness:
  "rate_post ''2024-05-01T11:00:00'' (take 8 (str_uuid 2)) 11 ''bob'' one_post =
     (Inl (HTTPException 400 ''Score must be 1-10''), one_post) \<and>
   rate_post ''2024-05-01T11:00:00'' ''nobody'' 0 ''bob'' one_post =
     (Inl (HTTPException 400 ''Score must be 1-10''), one_post)"
  using
    rate_post_rejects_out_of_range
      [of 11 "''2024-05-01T11:00:00''" "take 8 (str_uuid 2)" "''bob''" one_post]
    rate_post_rejects_out_of_range
      [of 0 "''2024-05-01T11:00:00''" "''nobody''" "''bob''" one_post]
  by simp

lemma select_one_post:
  "select_post (take 8 (str_uuid 2)) (posts one_post) = Some (hd (posts one_post))"
  by (simp add: posts_one_post select_post_def)

lemma ratings_one_post: "ratings one_post = []"
  by (simp add: one_post_def create_post_def insert_post_def init_db_def sample_image_def
        startswith_def rsplit_last_def Let_def)

text \<open>
  Claim C3. For every score from 1 to 10 and every token that the lookup resolves to a
  post \<open>p\<close>, \<^verbatim>\<open>rate_post\<close> succeeds; the state afterwards is the state before with
  exactly one row appended to the ratings table, a row of post \<open>p\<close> with the submitted
  score; and the \<^verbatim>\<open>total_ratings\<close> of the response is the number of rating rows the
  post had before the call, plus one.
\<close>

theorem rate_post_inserts_one_rating:
  assumes "1 \<le> sc" "sc \<le> 10" and "select_post token (posts s) = Some p"
  shows "let row = \<lparr>r_id = ratings_seq s + 1, r_post_id = p_id p, rater_name = name,
                    score = sc, r_created_at = now\<rparr>;
             s' = s\<lparr>ratings := ratings s @ [row], ratings_seq := ratings_seq s + 1\<rparr>
         in rate_post now token sc name s = (Inr (post_stats (p_id p) s'), s') \<and>
            total_ratings (post_stats (p_id p) s') =
              length (filter (\<lambda>r. r_post_id r = p_id p) (ratings s)) + 1 \<and>
            total_ratings (post_stats (p_id p) s) =
              length (filter (\<lambda>r. r_post_id r = p_id p) (ratings s))"
  using assms by (simp add: rate_post_def insert_rating_def post_stats_def Let_def)

text \<open>Score 7 on the sample post, through its share token: one row, one rating.\<close>

theorem rate_post_inserts_one_rating_witness:
  "fst (rate_post ''2024-05-01T11:00:00'' (take 8 (str_uuid 2)) 7 ''bob'' one_post) =
     Inr (post_stats (str_uuid 1)
            (snd (rate_post ''2024-05-01T11:00:00'' (take 8 (str_uuid 2)) 7 ''bob'' one_post))) \<and>
   ratings (snd (rate_post ''2024-05-01T11:00:00'' (take 8 (str_uuid 2)) 7 ''bob'' one_post)) =
     [\<lparr>r_id = ratings_seq one_post + 1, r_post_id = str_uuid 1, rater_name = ''bob'',
       score = 7, r_created_at = ''2024-05-01T11:00:00''\<rparr>] \<and>
   total_ratings (post_stats (str_uuid 1)
     (snd (rate_post ''2024-05-01T11:00:00'' (take 8 (str_uuid 2)) 7 ''bob'' one_post))) = 1"
  using rate_post_inserts_one_rating [of 7 "take 8 (str_uuid 2)" one_post "hd (posts one_post)"
      "''bob''" "''2024-05-01T11:00:00''", OF _ _ select_one_post]
  by (simp add: posts_one_post ratings_one_post Let_def)

subsection \<open>Tokens that resolve to no post\<close>

text \<open>
  Claim C6, as stated, says that rating submission answers 404 for every token that
  resolves to no post. \<^verbatim>\<open>rate_post\<close> checks the score first: with a score outside 1 to
  10 the answer is 400, also when the token resolves to nothing. Here the posts table is
  empty and the score is 0.
\<close>

theorem unresolved_token_rate_counterexample:
  "posts (init_db Map.empty) = [] \<and>
   fst (rate_post ''2024-05-01T11:00:00'' ''nobody'' 0 ''bob'' (init_db Map.empty)) =
     Inl (HTTPException 400 ''Score must be 1-10'') \<and>
   fst (rate_post ''2024-05-01T11:00:00'' ''nobody'' 0 ''bob'' (init_db Map.empty)) \<noteq>
     Inl (HTTPException 404 ''Post not found'')"
  by (simp add: rate_post_def init_db_def)

text \<open>
  Claim C6, amended. For every token that matches neither a share token nor an id of a
  stored post, \<^verbatim>\<open>react_post\<close> answers 404, \<^verbatim>\<open>rate_post\<close> answers 404 when the score
  lies between 1 and 10, and in every case (also for a score out of range) the stored
  state is the one before the call.
\<close>

theorem unresolved_token_not_found:
  assumes "\<And>p. p \<in> set (posts s) \<Longrightarrow> share_token p \<noteq> token \<and> p_id p \<noteq> token"
  shows "react_post now token e s = (Inl (HTTPException 404 ''Post not found''), s) \<and>
         (1 \<le> sc \<and> sc \<le> 10 \<longrightarrow>
            rate_post now token sc name s = (Inl (HTTPException 404 ''Post not found''), s)) \<and>
         snd (rate_post now token sc name s) = s"
proof -
  from assms have "select_post token (posts s) = None"
    by (auto simp: select_post_def find_None_iff)
  then show ?thesis
    by (simp add: react_post_def rate_post_def)
qed

theorem unresolved_token_not_found_witness:
  "react_post ''2024-05-01T11:00:00'' ''nobody'' ''fire'' one_post =
     (Inl (HTTPException 404 ''Post not found''), one_post) \<and>
   rate_post ''2024-05-01T11:00:00'' ''nobody'' 7 ''bob'' one_post =
     (Inl (HTTPException 404 ''Post not found''), one_post)"
proof -
  have "\<And>p. p \<in> set (posts one_post) \<Longrightarrow> share_token p \<noteq> ''nobody'' \<and> p_id p \<noteq> ''nobody''"
  proof -
    fix p assume "p \<in> set (posts one_post)"
    then have "length (share_token p) = 8 \<and> length (p_id p) = 36"
      by (simp add: posts_one_post)
    then show "share_token p \<noteq> ''nobody'' \<and> p_id p \<noteq> ''nobody''" by auto
  qed
  from unresolved_token_not_found
    [of one_post "''nobody''" "''2024-05-01T11:00:00''" "''fire''" 7 "''bob''", OF this]
  show ?thesis by simp
qed

subsection \<open>Deletion and the PIN\<close>

lemma reachable_pin_hash:
  assumes "reachable sha s" "p \<in> set (posts s)" "pin_hash p = Some h"
  shows "h \<noteq> []"
  using reachable_wf [OF assms(1)] assms(2,3) by (auto simp: wf_state_def list_all_iff)

lemma select_pin_post:
  "select_post (take 8 (str_uuid 2)) (posts pin_post) = Some (hd (posts pin_post))"
  by (simp add: posts_pin_post select_post_def)

lemma byte_sum_differs: "hash_pin byte_sum ''0000'' \<noteq> hash_pin byte_sum ''1234''"
  by code_simp

text \<open>
  Claim C1. Let the token resolve to a post \<open>p\<close> of a reachable state. A PIN counts as
  supplied when it is neither \<^verbatim>\<open>None\<close> nor the empty string (the test \<^verbatim>\<open>not pin\<close> of
  \<^verbatim>\<open>delete_post\<close>; claim C10 treats the empty PIN). If \<open>p\<close> has a stored hash \<open>h\<close>, the
  deletion succeeds exactly when a PIN is supplied whose hex digest equals \<open>h\<close>; in every
  other case the answer is 403 and the whole stored state (the post, its image file, its
  ratings and its reactions) is the one before the call. If \<open>p\<close> has no stored hash, the
  deletion succeeds for every PIN and for none. (Reachability gives that a stored hash is
  a hex digest of 64 digits, so the test \<^verbatim>\<open>if post["pin_hash"]\<close> is true for it.)
\<close>

theorem delete_post_pin_check:
  assumes "reachable sha s" and "select_post token (posts s) = Some p"
  shows "(pin_hash p = None \<longrightarrow> fst (delete_post sha token pin s) = Inr ''Post deleted'') \<and>
         (\<forall>h. pin_hash p = Some h \<longrightarrow>
            ((fst (delete_post sha token pin s) = Inr ''Post deleted'') =
             (\<exists>x. pin = Some x \<and> x \<noteq> [] \<and> hash_pin sha x = h)) \<and>
            ((\<nexists>x. pin = Some x \<and> x \<noteq> [] \<and> hash_pin sha x = h) \<longrightarrow>
               delete_post sha token pin s = (Inl (HTTPException 403 ''Invalid PIN''), s)))"
proof (cases "pin_hash p")
  case None
  with assms(2) show ?thesis by (simp add: delete_post_def Let_def)
next
  case (Some h)
  from assms(2) have "p \<in> set (posts s)" by (simp add: select_post_SomeD)
  from reachable_pin_hash [OF assms(1) this Some] have "h \<noteq> []" .
  with Some assms(2) show ?thesis
    by (cases pin) (auto simp: delete_post_def Let_def)
qed

text \<open>
  The post protected by the PIN 1234: the right PIN deletes it, the PIN 0000 and no PIN
  are answered 403 with the state unchanged. The post without a PIN: deleted with no PIN
  and with any PIN.
\<close>

theorem delete_post_pin_check_witness:
  "fst (delete_post byte_sum (take 8 (str_uuid 2)) (Some ''1234'') pin_post) = Inr ''Post deleted'' \<and>
   delete_post byte_sum (take 8 (str_uuid 2)) (Some ''0000'') pin_post =
     (Inl (HTTPException 403 ''Invalid PIN''), pin_post) \<and>
   delete_post byte_sum (take 8 (str_uuid 2)) None pin_post =
     (Inl (HTTPException 403 ''Invalid PIN''), pin_post) \<and>
   fst (delete_post byte_sum (take 8 (str_uuid 2)) None one_post) = Inr ''Post deleted'' \<and>
   fst (delete_post byte_sum (take 8 (str_uuid 2)) (Some ''0000'') one_post) = Inr ''Post deleted''"
  using
    delete_post_pin_check [OF reachable_pin_post select_pin_post, of "Some ''1234''"]
    delete_post_pin_check [OF reachable_pin_post select_pin_post, of "Some ''0000''"]
    delete_post_pin_check [OF reachable_pin_post select_pin_post, of None]
    delete_post_pin_check [OF reachable_one_post select_one_post, of None]
    delete_post_pin_check [OF reachable_one_post select_one_post, of "Some ''0000''"]
    byte_sum_differs
  by (simp add: posts_pin_post posts_one_post)

subsection \<open>Retrieval by share token and by id\<close>

text \<open>
  Claim C5. For every post \<open>p\<close> stored in a reachable state and every base URL,
  \<^verbatim>\<open>get_post\<close> called with the post's share token and called with its id return the same
  representation, the serialization of \<open>p\<close> itself: the same id, username, caption,
  category, image URL, share token, creation time and derived stats. (An id has 36
  characters and a share token 8, so neither lookup can hit another post.)
\<close>

theorem get_post_by_token_and_id:
  assumes "reachable sha s" and "p \<in> set (posts s)"
  shows "get_post (share_token p) base s = Inr (serialize_post p base s) \<and>
         get_post (p_id p) base s = Inr (serialize_post p base s)"
  using select_post_member [OF reachable_wf [OF assms(1)] assms(2)]
  by (simp add: get_post_def)

theorem get_post_by_token_and_id_witness:
  "get_post (take 8 (str_uuid 2)) ''http://localhost:8000'' one_post =
     get_post (str_uuid 1) ''http://localhost:8000'' one_post \<and>
   (\<exists>obj. get_post (str_uuid 1) ''http://localhost:8000'' one_post = Inr obj \<and>
      o_id obj = str_uuid 1 \<and> o_share_token obj = take 8 (str_uuid 2) \<and>
      o_username obj = ''ada'' \<and> o_total_ratings obj = 0)"
  using get_post_by_token_and_id
    [OF reachable_one_post, of "hd (posts one_post)" "''http://localhost:8000''"]
  by (simp add: posts_one_post serialize_post_def post_stats_def ratings_one_post Let_def)

subsection \<open>Uniqueness of ids and share tokens\<close>

lemma unique_ids_step: "unique_ids s \<Longrightarrow> unique_ids (step sha r s)"
proof (cases r)
  case (Create u1 u2 now un cap cat pin img)
  assume "unique_ids s"
  with Create show ?thesis
    by (auto simp: unique_ids_def create_post_def insert_post_def Let_def)
next
  case (Rate now t sc name)
  assume "unique_ids s"
  with Rate show ?thesis
    by (auto simp: unique_ids_def rate_post_def insert_rating_def split: option.splits)
next
  case (React now t e)
  assume "unique_ids s"
  with React show ?thesis
    by (auto simp: unique_ids_def react_post_def insert_reaction_def Let_def split: option.splits)
next
  case (Delete t pin)
  assume "unique_ids s"
  with Delete show ?thesis
    by (auto simp: unique_ids_def delete_post_def sql_delete_post_def Let_def distinct_map_filter
        split: option.splits)
qed

lemma reachable_two_posts: "reachable byte_sum two_posts"
  unfolding two_posts_def by (rule reachable.step, rule reachable_one_post)

text \<open>
  Claim C9. In every state reachable by create, rate, react and delete requests the post
  ids are pairwise distinct and the share tokens are pairwise distinct, and every such
  request preserves this: from any state with the uniqueness property it leads to a
  state with it. (A create whose id or token repeats a stored one is refused by the
  table's \<^verbatim>\<open>PRIMARY KEY\<close> and \<^verbatim>\<open>UNIQUE\<close> constraints.)
\<close>

theorem ids_and_tokens_unique:
  "(reachable sha s \<longrightarrow> unique_ids s) \<and> (unique_ids s \<longrightarrow> unique_ids (step sha r s))"
proof (intro conjI impI)
  assume "reachable sha s"
  then show "unique_ids s"
  proof (induction rule: reachable.induct)
    case (init files)
    show ?case by (simp add: unique_ids_def init_db_def)
  next
    case (step s r)
    then show ?case by (simp add: unique_ids_step)
  qed
next
  assume "unique_ids s"
  then show "unique_ids (step sha r s)" by (rule unique_ids_step)
qed

text \<open>
  The state with two posts, and the state after a further create that draws the UUIDs
  of the first post again.
\<close>

theorem ids_and_tokens_unique_witness:
  "reachable byte_sum two_posts \<and> unique_ids two_posts \<and>
   unique_ids
     (step byte_sum
        (Create 1 2 ''2024-05-03T08:00:00'' ''cy'' [] ''food'' None sample_image) two_posts)"
  using reachable_two_posts
    ids_and_tokens_unique [of byte_sum two_posts
      "Create 1 2 ''2024-05-03T08:00:00'' ''cy'' [] ''food'' None sample_image"]
  by simp

subsection \<open>The empty PIN\<close>

lemma create_post_success:
  assumes "create_post sha u1 u2 now un cap cat pin img s = (Inr out, s')"
  shows "\<exists>row. posts s' = posts s @ [row] \<and> p_id row = c_id out \<and>
           share_token row = c_share_token out \<and>
           pin_hash row = (if truthy pin then map_option (hash_pin sha) pin else None)"
  using assms
  by (auto simp: create_post_def insert_post_def Let_def split: if_splits)

lemma sample_create_empty_pin:
  "create_post byte_sum 1 2 ''2024-05-01T10:00:00'' ''ada'' ''hello'' ''fit'' (Some []) sample_image
     (init_db Map.empty) =
   (Inr \<lparr>c_id = str_uuid 1, c_share_token = take 8 (str_uuid 2),
         c_share_url = ''/rate/'' @ take 8 (str_uuid 2)\<rparr>, one_post)"
  by (simp add: one_post_def create_post_def insert_post_def init_db_def sample_image_def
        startswith_def rsplit_last_def Let_def)

text \<open>
  Claim C10. A create request with the empty string as PIN does exactly what the same
  request without a PIN does. When it succeeds from a reachable state, the new row is
  the one both its share token and its id resolve to, its stored PIN hash is null, and
  deleting it succeeds with every PIN and with none. Conversely, in a reachable state a
  delete request with the empty string as PIN against a post that has a stored hash is
  answered 403, exactly as the request without a PIN is.
\<close>

theorem empty_pin_is_no_pin:
  "create_post sha ua ub now un cap cat (Some []) img s =
     create_post sha ua ub now un cap cat None img s \<and>
   (reachable sha s \<and> create_post sha ua ub now un cap cat (Some []) img s = (Inr out, s') \<longrightarrow>
      (\<exists>row. select_post (c_share_token out) (posts s') = Some row \<and>
             select_post (c_id out) (posts s') = Some row \<and> pin_hash row = None) \<and>
      (\<forall>pin. fst (delete_post sha (c_share_token out) pin s') = Inr ''Post deleted'' \<and>
             fst (delete_post sha (c_id out) pin s') = Inr ''Post deleted'')) \<and>
   (reachable sha s \<and> select_post token (posts s) = Some p \<and> pin_hash p \<noteq> None \<longrightarrow>
      delete_post sha token (Some []) s = (Inl (HTTPException 403 ''Invalid PIN''), s) \<and>
      delete_post sha token (Some []) s = delete_post sha token None s)"
proof (intro conjI impI)
  show "create_post sha ua ub now un cap cat (Some []) img s =
        create_post sha ua ub now un cap cat None img s"
    by (simp add: create_post_def)
next
  assume a: "reachable sha s \<and>
    create_post sha ua ub now un cap cat (Some []) img s = (Inr out, s')"
  then have c: "create_post sha ua ub now un cap cat (Some []) img s = (Inr out, s')" by simp
  from create_post_success [OF c] obtain row where
    row: "posts s' = posts s @ [row]" "p_id row = c_id out"
      "share_token row = c_share_token out" "pin_hash row = None"
    by auto
  from a have "reachable sha (step sha (Create ua ub now un cap cat (Some []) img) s)"
    by (blast intro: reachable.step)
  with c have "reachable sha s'" by simp
  then have wf: "wf_state s'" by (rule reachable_wf)
  from row(1) have mem: "row \<in> set (posts s')" by simp
  have t: "select_post (c_share_token out) (posts s') = Some row"
    using select_post_member [OF wf mem] row(3) by simp
  have i: "select_post (c_id out) (posts s') = Some row"
    using select_post_member [OF wf mem] row(2) by simp
  from t i row(4)
  show "\<exists>row. select_post (c_share_token out) (posts s') = Some row \<and>
             select_post (c_id out) (posts s') = Some row \<and> pin_hash row = None"
    by blast
  from t i row(4)
  show "\<forall>pin. fst (delete_post sha (c_share_token out) pin s') = Inr ''Post deleted'' \<and>
             fst (delete_post sha (c_id out) pin s') = Inr ''Post deleted''"
    by (simp add: delete_post_def Let_def)
next
  assume a: "reachable sha s \<and> select_post token (posts s) = Some p \<and> pin_hash p \<noteq> None"
  then obtain h where h: "pin_hash p = Some h" by auto
  from a have r: "reachable sha s" and sel: "select_post token (posts s) = Some p"
    by simp_all
  from sel have "p \<in> set (posts s)" by (simp add: select_post_SomeD)
  from reachable_pin_hash [OF r this h] have ne: "h \<noteq> []" .
  with a h show "delete_post sha token (Some []) s = (Inl (HTTPException 403 ''Invalid PIN''), s)"
    by (simp add: delete_post_def)
  from ne a h show "delete_post sha token (Some []) s = delete_post sha token None s"
    by (simp add: delete_post_def)
qed

theorem empty_pin_is_no_pin_witness:
  "fst (delete_post byte_sum (take 8 (str_uuid 2)) None one_post) = Inr ''Post deleted'' \<and>
   fst (delete_post byte_sum (str_uuid 1) (Some ''9999'') one_post) = Inr ''Post deleted'' \<and>
   delete_post byte_sum (take 8 (str_uuid 2)) (Some []) pin_post =
     (Inl (HTTPException 403 ''Invalid PIN''), pin_post)"
  using
    empty_pin_is_no_pin [where sha = byte_sum and ua = 1 and ub = 2
      and now = "''2024-05-01T10:00:00''" and un = "''ada''" and cap = "''hello''"
      and cat = "''fit''" and img = sample_image and s = "init_db Map.empty"
      and out = "\<lparr>c_id = str_uuid 1, c_share_token = take 8 (str_uuid 2),
                   c_share_url = ''/rate/'' @ take 8 (str_uuid 2)\<rparr>"
      and s' = one_post and token = "[]" and p = "hd (posts pin_post)"]
    empty_pin_is_no_pin [where sha = byte_sum and s = pin_post
      and token = "take 8 (str_uuid 2)" and p = "hd (posts pin_post)"]
    sample_create_empty_pin reachable.init [of byte_sum Map.empty]
    reachable_pin_post select_pin_post
  by (simp add: posts_pin_post)

subsection \<open>Listing\<close>

lemma created_at_serialize [simp]: "o_created_at (serialize_post p base s) = created_at p"
  by (simp add: serialize_post_def Let_def)

text \<open>
  Claim C8. \<^verbatim>\<open>get_posts\<close> returns the serializations of the stored posts, each as often
  as the table holds the row (once, as ids are unique), ordered by creation timestamp
  with the newest first, and the stats fields of every serialization are the current
  \<^verbatim>\<open>post_stats\<close> of that post.
\<close>

theorem get_posts_all_newest_first:
  "mset (get_posts base s) = image_mset (\<lambda>p. serialize_post p base s) (mset (posts s)) \<and>
   sorted_wrt (\<lambda>a b. o_created_at b \<le> o_created_at a) (get_posts base s) \<and>
   o_avg_rating (serialize_post p base s) = avg_rating (post_stats (p_id p) s) \<and>
   o_total_ratings (serialize_post p base s) = total_ratings (post_stats (p_id p) s) \<and>
   o_reactions (serialize_post p base s) = reactions_of (post_stats (p_id p) s)"
proof (intro conjI)
  show "mset (get_posts base s) = image_mset (\<lambda>p. serialize_post p base s) (mset (posts s))"
    by (simp add: get_posts_def order_by_created_at_desc_def)
  have "sorted (map created_at (sort_key created_at (posts s)))"
    by (rule sorted_sort_key)
  then have "sorted_wrt (\<lambda>a b. created_at a \<le> created_at b) (sort_key created_at (posts s))"
    by (simp add: sorted_map)
  then show "sorted_wrt (\<lambda>a b. o_created_at b \<le> o_created_at a) (get_posts base s)"
    by (simp add: get_posts_def order_by_created_at_desc_def sorted_wrt_map sorted_wrt_rev)
qed (simp_all add: serialize_post_def Let_def)

subsection \<open>The sample states, evaluated\<close>

lemma one_post_eq:
  "one_post =
     \<lparr>posts =
        [\<lparr>p_id = str_uuid 1, username = ''ada'', caption = ''hello'', category = ''fit'',
          image_url = str_uuid 1 @ ''.png'', share_token = take 8 (str_uuid 2), pin_hash = None,
          created_at = ''2024-05-01T10:00:00''\<rparr>],
      ratings = [], ratings_seq = 0, reactions = [], reactions_seq = 0,
      uploads = [str_uuid 1 @ ''.png'' \<mapsto> ''PNG'']\<rparr>"
  by (simp add: one_post_def create_post_def insert_post_def init_db_def sample_image_def
        startswith_def rsplit_last_def Let_def)

lemma rated_post_eq:
  "rated_post =
     \<lparr>posts =
        [\<lparr>p_id = str_uuid 1, username = ''ada'', caption = ''hello'', category = ''fit'',
          image_url = str_uuid 1 @ ''.png'', share_token = take 8 (str_uuid 2), pin_hash = None,
          created_at = ''2024-05-01T10:00:00''\<rparr>],
      ratings =
        [\<lparr>r_id = 1, r_post_id = str_uuid 1, rater_name = ''bob'', score = 8,
          r_created_at = ''2024-05-01T11:00:00''\<rparr>],
      ratings_seq = 1,
      reactions =
        [\<lparr>x_id = 1, x_post_id = str_uuid 1, emoji = ''fire'',
          x_created_at = ''2024-05-01T12:00:00''\<rparr>],
      reactions_seq = 1,
      uploads = [str_uuid 1 @ ''.png'' \<mapsto> ''PNG'']\<rparr>"
  by (simp add: rated_post_def one_post_eq rate_post_def react_post_def select_post_def
        insert_rating_def insert_reaction_def Let_def)

lemma token_2: "take 8 (str_uuid 2) = ''00000000''"
  by (simp add: str_uuid_def Let_def hex_of_numeral hex_of_1 hex_digit_def)

lemma token_4: "take 8 (str_uuid 0x5e0000000000000000000000000004) = ''005e0000''"
  by (simp add: str_uuid_def Let_def hex_of_numeral hex_of_1 hex_digit_def)

lemma uuid_1: "str_uuid 1 = ''00000000-0000-0000-0000-000000000001''"
  by (simp add: str_uuid_def Let_def hex_of_numeral hex_of_1 hex_digit_def)

lemma uuid_3: "str_uuid 3 = ''00000000-0000-0000-0000-000000000003''"
  by (simp add: str_uuid_def Let_def hex_of_numeral hex_of_1 hex_digit_def)

lemma posts_two_posts:
  "posts two_posts =
     [\<lparr>p_id = str_uuid 1, username = ''ada'', caption = ''hello'', category = ''fit'',
       image_url = str_uuid 1 @ ''.png'', share_token = take 8 (str_uuid 2), pin_hash = None,
       created_at = ''2024-05-01T10:00:00''\<rparr>,
      \<lparr>p_id = str_uuid 3, username = ''bea'', caption = [], category = ''nails'',
       image_url = str_uuid 3 @ ''.png'',
       share_token = take 8 (str_uuid 0x5e0000000000000000000000000004),
       pin_hash = Some (hash_pin byte_sum ''1234''), created_at = ''2024-05-02T09:30:00''\<rparr>]"
proof -
  have "str_uuid 3 \<noteq> str_uuid 1" by (simp add: uuid_1 uuid_3)
  moreover have "take 8 (str_uuid 0x5e0000000000000000000000000004) \<noteq> take 8 (str_uuid 2)"
    by (simp add: token_2 token_4)
  ultimately show ?thesis
    by (simp add: two_posts_def one_post_eq create_post_def insert_post_def sample_image_def
        startswith_def rsplit_last_def Let_def)
qed

lemma get_posts_two_posts:
  "map o_id (get_posts ''http://localhost:8000'' two_posts) = [str_uuid 3, str_uuid 1]"
  by (simp add: get_posts_def order_by_created_at_desc_def posts_two_posts serialize_post_def
        Let_def)

text \<open>
  The listing of the state with two posts: sorted, the post of 2 May before the post of
  1 May.
\<close>

theorem get_posts_all_newest_first_witness:
  "sorted_wrt (\<lambda>a b. o_created_at b \<le> o_created_at a)
     (get_posts ''http://localhost:8000'' two_posts) \<and>
   map o_id (get_posts ''http://localhost:8000'' two_posts) = [str_uuid 3, str_uuid 1]"
  using get_posts_all_newest_first [of "''http://localhost:8000''" two_posts "hd (posts two_posts)"]
    get_posts_two_posts
  by blast

subsection \<open>What a deletion removes\<close>

text \<open>
  After a successful deletion from a reachable state the image file is gone from the
  upload directory and neither the share token nor the id of the post resolves any more:
  both retrievals answer 404. The ratings and reactions tables, however, are the ones
  before the call.
\<close>

lemma delete_post_removes_post_and_file:
  assumes r: "reachable sha s" and sel: "select_post token (posts s) = Some p"
    and del: "delete_post sha token pin s = (Inr msg, s')"
  shows "image_url p \<notin> dom (uploads s') \<and>
         get_post (share_token p) base s' = Inl (HTTPException 404 ''Post not found'') \<and>
         get_post (p_id p) base s' = Inl (HTTPException 404 ''Post not found'') \<and>
         ratings s' = ratings s \<and> reactions s' = reactions s"
proof -
  from del sel have s': "posts s' = filter (\<lambda>q. p_id q \<noteq> p_id p) (posts s)"
    "image_url p \<notin> dom (uploads s')" "ratings s' = ratings s" "reactions s' = reactions s"
    by (auto simp: delete_post_def sql_delete_post_def foreign_keys_def Let_def
        split: if_splits)
  from r have wf: "wf_state s" by (rule reachable_wf)
  from sel have p: "p \<in> set (posts s)" by (simp add: select_post_SomeD)
  have none: "select_post t (posts s') = None" if t: "t = share_token p \<or> t = p_id p" for t
  proof (cases "select_post t (posts s')")
    case None
    then show ?thesis .
  next
    case (Some q)
    then have q: "q \<in> set (posts s)" "p_id q \<noteq> p_id p" "share_token q = t \<or> p_id q = t"
      by (auto simp: s'(1) dest!: select_post_SomeD)
    from select_post_member [OF wf q(1) q(3)] have "select_post t (posts s) = Some q" .
    moreover from select_post_member [OF wf p, of t] t have "select_post t (posts s) = Some p"
      by auto
    ultimately have "q = p" by simp
    with q(2) show ?thesis by simp
  qed
  from none [of "share_token p"] none [of "p_id p"] s'(2-4) show ?thesis
    by (simp add: get_post_def)
qed

text \<open>
  Claim C7 says that a successful deletion removes the image file, makes the post
  unresolvable by share token and by id, and removes every rating row and reaction row
  owned by the post. The first two parts hold (\<open>delete_post_removes_post_and_file\<close>). The
  third does not: the tables declare \<^verbatim>\<open>ON DELETE CASCADE\<close>, but \<^verbatim>\<open>get_db\<close> never turns
  foreign-key enforcement on, so \<^verbatim>\<open>DELETE FROM posts\<close> removes the post row only. Here
  the sample post with one rating and one reaction is deleted: the post and its file are
  gone, and its rating row and its reaction row are still stored.
\<close>

theorem delete_post_keeps_ratings_and_reactions:
  "fst (delete_post byte_sum (take 8 (str_uuid 2)) None rated_post) = Inr ''Post deleted'' \<and>
   posts (snd (delete_post byte_sum (take 8 (str_uuid 2)) None rated_post)) = [] \<and>
   uploads (snd (delete_post byte_sum (take 8 (str_uuid 2)) None rated_post)) = Map.empty \<and>
   ratings (snd (delete_post byte_sum (take 8 (str_uuid 2)) None rated_post)) =
     [\<lparr>r_id = 1, r_post_id = str_uuid 1, rater_name = ''bob'', score = 8,
       r_created_at = ''2024-05-01T11:00:00''\<rparr>] \<and>
   reactions (snd (delete_post byte_sum (take 8 (str_uuid 2)) None rated_post)) =
     [\<lparr>x_id = 1, x_post_id = str_uuid 1, emoji = ''fire'',
       x_created_at = ''2024-05-01T12:00:00''\<rparr>]"
  by (simp add: rated_post_eq delete_post_def select_post_def sql_delete_post_def
        foreign_keys_def Let_def)

subsection \<open>Binary64 rounding\<close>

declare bitlen.simps [simp del]

lemma round_half_even_bound: "\<bar>of_int (round_half_even q) - q\<bar> \<le> 1 / 2"
proof -
  have "of_int \<lfloor>q\<rfloor> \<le> q" "q < of_int \<lfloor>q\<rfloor> + 1" by linarith+
  then show ?thesis
    by (auto simp: round_half_even_def Let_def abs_le_iff)
qed

lemma round_half_even_of_int [simp]: "round_half_even (of_int i) = i"
  by (simp add: round_half_even_def)

lemma pow2_powi: "pow2 k = 2 powi k"
  by (simp add: pow2_def power_int_def field_simps)

lemma pow2_pos [simp]: "0 < pow2 k"
  by (simp add: pow2_def)

lemma pow2_add: "pow2 (a + b) = pow2 a * pow2 b"
  by (simp add: pow2_powi power_int_add)

lemma pow2_nonneg: "0 \<le> k \<Longrightarrow> pow2 k = of_int (2 ^ nat k)"
  by (simp add: pow2_def)

lemma pow2_mono: "a \<le> b \<Longrightarrow> pow2 a \<le> pow2 b"
  by (simp add: pow2_powi power_int_increasing)

lemma bitlen_0 [simp]: "bitlen 0 = 0"
  by (simp add: bitlen.simps)

lemma bitlen_le: "n < 2 ^ k \<Longrightarrow> bitlen n \<le> k"
proof (induction k arbitrary: n)
  case 0
  then show ?case by simp
next
  case (Suc k)
  then have "n div 2 < 2 ^ k" by auto
  then have "bitlen (n div 2) \<le> k" by (rule Suc.IH)
  then show ?case by (simp add: bitlen.simps [of n])
qed

text \<open>The rounding error of \<open>double_of_rat\<close> is at most half a unit in the last place.\<close>

lemma double_of_rat_error:
  assumes "0 < q"
  shows "\<bar>double_of_rat q - q\<bar> \<le> pow2 (ilog2 q - 53)"
proof -
  define e where "e = ilog2 q"
  define m where "m = round_half_even (q * pow2 (52 - e))"
  have d: "double_of_rat q = of_int m * pow2 (e - 52)"
    using assms by (simp add: double_of_rat_def e_def m_def Let_def)
  have one: "pow2 (52 - e) * pow2 (e - 52) = 1"
    using pow2_add [of "52 - e" "e - 52"] by (simp add: pow2_def)
  have "\<bar>of_int m - q * pow2 (52 - e)\<bar> \<le> 1 / 2"
    unfolding m_def by (rule round_half_even_bound)
  then have a: "\<bar>of_int m - q * pow2 (52 - e)\<bar> * pow2 (e - 52) \<le> 1 / 2 * pow2 (e - 52)"
    by (rule mult_right_mono) (simp add: less_imp_le)
  have b: "\<bar>of_int m - q * pow2 (52 - e)\<bar> * pow2 (e - 52) =
      \<bar>of_int m * pow2 (e - 52) - q\<bar>"
  proof -
    have "\<bar>of_int m - q * pow2 (52 - e)\<bar> * pow2 (e - 52) =
        \<bar>(of_int m - q * pow2 (52 - e)) * pow2 (e - 52)\<bar>"
      by (simp add: abs_mult less_imp_le)
    also have "(of_int m - q * pow2 (52 - e)) * pow2 (e - 52) =
        of_int m * pow2 (e - 52) - q * (pow2 (52 - e) * pow2 (e - 52))"
      by (simp add: algebra_simps)
    finally show ?thesis by (simp add: one)
  qed
  have c: "1 / 2 * pow2 (e - 52) = pow2 (e - 53)"
    using pow2_add [of "-1" "e - 52"] by (simp add: pow2_def)
  from a have "\<bar>of_int m * pow2 (e - 52) - q\<bar> \<le> pow2 (e - 53)"
    unfolding b c .
  then show ?thesis unfolding d e_def .
qed

lemma double_of_rat_of_int:
  assumes "0 < i" "i < 2 ^ 53"
  shows "double_of_rat (of_int i) = of_int i"
proof -
  define e where "e = ilog2 (of_int i)"
  have "nat i < 2 ^ 53" using assms by (simp add: nat_less_iff)
  then have "bitlen (nat i) \<le> 53" by (rule bitlen_le)
  then have e: "e \<le> 52" using assms by (simp add: e_def ilog2_def)
  then have p: "pow2 (52 - e) = of_int (2 ^ nat (52 - e))" by (simp add: pow2_nonneg)
  have one: "pow2 (52 - e) * pow2 (e - 52) = 1"
    using pow2_add [of "52 - e" "e - 52"] by (simp add: pow2_def)
  have "round_half_even (of_int i * pow2 (52 - e)) = i * 2 ^ nat (52 - e)"
    unfolding p of_int_mult [symmetric] by (rule round_half_even_of_int)
  then have "double_of_rat (of_int i) = of_int (i * 2 ^ nat (52 - e)) * pow2 (e - 52)"
    using assms by (simp add: double_of_rat_def e_def Let_def)
  also have "\<dots> = of_int i * (pow2 (52 - e) * pow2 (e - 52))"
    by (simp add: p)
  finally show ?thesis by (simp add: one)
qed

lemma ilog2_le_3:
  assumes "1 \<le> q" "q \<le> 10"
  shows "ilog2 q \<le> 3"
proof -
  from assms have f: "\<lfloor>q\<rfloor> \<le> 10" by (simp add: floor_le_iff)
  have "nat \<lfloor>q\<rfloor> < 16" using f by linarith
  then have "nat \<lfloor>q\<rfloor> < 2 ^ 4" by simp
  then have "bitlen (nat \<lfloor>q\<rfloor>) \<le> 4" by (rule bitlen_le)
  with assms show ?thesis by (simp add: ilog2_def)
qed

lemma double_of_rat_close:
  assumes "1 \<le> q" "q \<le> 10"
  shows "\<bar>double_of_rat q - q\<bar> \<le> 1 / 2 ^ 50"
proof -
  from assms have "0 < q" by simp
  then have "\<bar>double_of_rat q - q\<bar> \<le> pow2 (ilog2 q - 53)" by (rule double_of_rat_error)
  also have "\<dots> \<le> pow2 (- 50)"
    using ilog2_le_3 [OF assms] by (intro pow2_mono) simp
  also have "\<dots> = 1 / 2 ^ 50" by (simp add: pow2_def)
  finally show ?thesis .
qed

text \<open>A tenth that is within a half of ten times the double is a nearest tenth of the mean.\<close>

lemma nearest_tenth:
  fixes S n k :: int and x :: rat
  assumes n: "0 < n" "n < 2 ^ 45"
    and x: "\<bar>x - of_int S / of_int n\<bar> \<le> 1 / 2 ^ 50"
    and k: "\<bar>of_int k - 10 * x\<bar> \<le> 1 / 2"
  shows "\<bar>of_int k / 10 - (of_int S / of_int n :: rat)\<bar> \<le> 1 / 20"
proof (rule ccontr)
  define q :: rat where "q = of_int S / of_int n"
  assume "\<not> \<bar>of_int k / 10 - (of_int S / of_int n :: rat)\<bar> \<le> 1 / 20"
  then have "1 / 20 < \<bar>of_int k / 10 - q\<bar>" by (simp add: q_def)
  then have far: "1 / 2 < \<bar>of_int k - 10 * q\<bar>" by linarith
  define D :: int where "D = 2 * k * n - 20 * S"
  have nz: "(of_int n :: rat) > 0" using n by simp
  have eq: "of_int k - 10 * q = of_int D / (2 * of_int n)"
    using nz by (simp add: D_def q_def field_simps)
  have abs_eq: "\<bar>of_int D / (2 * of_int n) :: rat\<bar> = \<bar>of_int D\<bar> / (2 * of_int n)"
    using nz by (simp add: abs_mult)
  from far have "1 / 2 < \<bar>of_int D :: rat\<bar> / (2 * of_int n)"
    unfolding eq abs_eq .
  then have "of_int n < \<bar>of_int D :: rat\<bar>"
    using nz by (simp add: field_simps)
  then have "n < \<bar>D\<bar>" by (metis of_int_abs of_int_less_iff)
  then have "n + 1 \<le> \<bar>D\<bar>" by simp
  then have "(of_int (n + 1) :: rat) \<le> of_int \<bar>D\<bar>" by (simp only: of_int_le_iff)
  then have "(of_int n + 1 :: rat) \<le> \<bar>of_int D\<bar>" by simp
  then have "(of_int n + 1) / (2 * of_int n) \<le> \<bar>of_int D :: rat\<bar> / (2 * of_int n)"
    using nz by (intro divide_right_mono) simp_all
  moreover have "1 / 2 + 1 / (2 * of_int n) = (of_int n + 1) / (2 * of_int n :: rat)"
    using nz by (simp add: field_simps)
  ultimately have "1 / 2 + 1 / (2 * of_int n) \<le> \<bar>of_int D :: rat\<bar> / (2 * of_int n)"
    by simp
  then have lower: "1 / 2 + 1 / (2 * of_int n) \<le> \<bar>of_int k - 10 * q\<bar>"
    unfolding eq abs_eq .
  from x have x': "\<bar>x - q\<bar> \<le> 1 / 2 ^ 50" by (simp add: q_def)
  have "of_int k - 10 * q = (of_int k - 10 * x) + 10 * (x - q)" by simp
  then have "\<bar>of_int k - 10 * q\<bar> \<le> \<bar>of_int k - 10 * x\<bar> + \<bar>10 * (x - q)\<bar>"
    by (simp only: abs_triangle_ineq)
  also have "\<bar>10 * (x - q)\<bar> = 10 * \<bar>x - q\<bar>" using abs_mult [of 10 "x - q"] by simp
  also have "\<bar>of_int k - 10 * x\<bar> + 10 * \<bar>x - q\<bar> \<le> 1 / 2 + 10 * (1 / 2 ^ 50)"
    using x' k by (intro add_mono mult_left_mono) simp_all
  finally have upper: "\<bar>of_int k - 10 * q\<bar> \<le> 1 / 2 + 10 * (1 / 2 ^ 50)" .
  from lower upper have "1 / (2 * of_int n) \<le> (10 * (1 / 2 ^ 50) :: rat)" by linarith
  then have "(2 ^ 50 :: rat) \<le> 20 * of_int n"
    using nz by (simp add: field_simps)
  then have "(of_int (2 ^ 50) :: rat) \<le> of_int (20 * n)" by simp
  then have "(2 ^ 50 :: int) \<le> 20 * n" by (simp only: of_int_le_iff)
  with n show False by simp
qed

subsection \<open>The derived stats\<close>

lemma sum_list_scores:
  fixes xs :: "int list"
  assumes "list_all (\<lambda>x. 1 \<le> x \<and> x \<le> 10) xs"
  shows "int (length xs) \<le> sum_list xs \<and> sum_list xs \<le> 10 * int (length xs)"
  using assms by (induction xs) auto

text \<open>
  For scores between 1 and 10 the sum and the count are exact as doubles, so
  \<^verbatim>\<open>AVG\<close> is the double nearest to the exact mean, which lies between 1 and 10.
\<close>

lemma sql_avg_scores:
  fixes xs :: "int list"
  assumes ne: "xs \<noteq> []" and sc: "list_all (\<lambda>x. 1 \<le> x \<and> x \<le> 10) xs"
    and len: "length xs < 2 ^ 45"
  shows "sql_avg xs = Some (double_of_rat (of_int (sum_list xs) / of_int (int (length xs))))"
    and "1 \<le> (of_int (sum_list xs) / of_int (int (length xs)) :: rat)"
    and "(of_int (sum_list xs) / of_int (int (length xs)) :: rat) \<le> 10"
proof -
  define n where "n = int (length xs)"
  define S where "S = sum_list xs"
  from ne have n0: "0 < n" by (simp add: n_def)
  from len have "int (length xs) < 2 ^ 45" by (metis of_nat_less_iff of_nat_numeral of_nat_power)
  then have n45: "n < 2 ^ 45" by (simp add: n_def)
  from sum_list_scores [OF sc] have b: "n \<le> S" "S \<le> 10 * n" by (simp_all add: n_def S_def)
  from n45 have n53: "n < 2 ^ 53" by simp
  from b n0 n45 have S0: "0 < S" and S53: "S < 2 ^ 53" by simp_all
  have "double_of_rat (of_nat (length xs)) = double_of_rat (of_int n)"
    by (simp add: n_def)
  also have "\<dots> = of_int n" using n0 n53 by (rule double_of_rat_of_int)
  finally have dn: "double_of_rat (of_nat (length xs)) = of_int n" .
  have dS: "double_of_rat (of_int S) = of_int S" using S0 S53 by (rule double_of_rat_of_int)
  from ne show "sql_avg xs = Some (double_of_rat (of_int (sum_list xs) / of_int (int (length xs))))"
    using dn dS by (simp add: sql_avg_def S_def n_def)
  have nz: "(0 :: rat) < of_int n" using n0 by simp
  from b(1) have "(of_int n :: rat) \<le> of_int S" by (simp only: of_int_le_iff)
  with nz show "1 \<le> (of_int (sum_list xs) / of_int (int (length xs)) :: rat)"
    by (simp add: S_def n_def field_simps)
  from b(2) have "(of_int S :: rat) \<le> of_int (10 * n)" by (simp only: of_int_le_iff)
  with nz show "(of_int (sum_list xs) / of_int (int (length xs)) :: rat) \<le> 10"
    by (simp add: S_def n_def field_simps)
qed

text \<open>
  The value \<^verbatim>\<open>post_stats\<close> puts under \<^verbatim>\<open>avg_rating\<close> for a non-empty list of scores
  between 1 and 10: the double nearest to a tenth \<open>k / 10\<close> that is a nearest tenth of the
  exact mean.
\<close>

lemma avg_rating_nearest_tenth:
  fixes xs :: "int list"
  assumes ne: "xs \<noteq> []" and sc: "list_all (\<lambda>x. 1 \<le> x \<and> x \<le> 10) xs"
    and len: "length xs < 2 ^ 45"
  shows "\<exists>a k. sql_avg xs = Some a \<and> a \<noteq> 0 \<and>
           py_round a 1 = double_of_rat (of_int k / 10) \<and>
           \<bar>of_int k / 10 - (of_int (sum_list xs) / of_int (int (length xs)) :: rat)\<bar> \<le> 1 / 20"
proof -
  define q :: rat where "q = of_int (sum_list xs) / of_int (int (length xs))"
  define a where "a = double_of_rat q"
  define k where "k = round_half_even (a * 10)"
  note avg = sql_avg_scores [OF ne sc len, folded q_def]
  from avg(2,3) have close: "\<bar>a - q\<bar> \<le> 1 / 2 ^ 50"
    unfolding a_def by (rule double_of_rat_close)
  have "(1 / 2 ^ 50 :: rat) < 1" by simp
  with close avg(2) have "0 < a" by linarith
  then have a0: "a \<noteq> 0" by simp
  have "\<bar>of_int k - a * 10\<bar> \<le> 1 / 2" unfolding k_def by (rule round_half_even_bound)
  then have kb: "\<bar>of_int k - 10 * a\<bar> \<le> 1 / 2" by (simp add: mult.commute)
  from ne have n0: "0 < int (length xs)" by simp
  from len have n45: "int (length xs) < 2 ^ 45"
    by (metis of_nat_less_iff of_nat_numeral of_nat_power)
  from close have close': "\<bar>a - of_int (sum_list xs) / of_int (int (length xs))\<bar> \<le> 1 / 2 ^ 50"
    by (simp add: q_def)
  from nearest_tenth [OF n0 n45 close' kb]
  have near: "\<bar>of_int k / 10 - (of_int (sum_list xs) / of_int (int (length xs)) :: rat)\<bar> \<le> 1 / 20" .
  have "py_round a 1 = double_of_rat (of_int k / 10)"
    by (simp add: py_round_def k_def)
  with avg(1) a0 near show ?thesis
    unfolding a_def by blast
qed

text \<open>The dictionary of reaction counts built from the \<^verbatim>\<open>GROUP BY\<close> rows.\<close>

lemma map_of_group_count:
  "map_of (group_count es) e = (if count_list es e = 0 then None else Some (count_list es e))"
proof (cases "e \<in> set es")
  case True
  then have "count_list es e \<noteq> 0" by (simp add: count_list_0_iff)
  with True show ?thesis
    by (simp add: group_count_def map_of_map_restrict restrict_map_def)
next
  case False
  then show ?thesis
    by (simp add: group_count_def map_of_map_restrict restrict_map_def count_list_0_iff)
qed

lemma sql_avg_example: "sql_avg [8, 6, 10] = Some 8"
  by code_simp

lemma py_round_example: "py_round 8 1 = 8"
  by code_simp

lemma reachable_ratings:
  assumes "reachable sha s"
  shows "list_all (\<lambda>x. 1 \<le> x \<and> x \<le> 10)
           (map score (filter (\<lambda>r. r_post_id r = pid) (ratings s)))"
  using reachable_wf [OF assms] by (auto simp: wf_state_def list_all_iff)

text \<open>
  Claim C4. In a reachable state, for every post id (with fewer than \<open>2\<^sup>4\<^sup>5\<close> rating
  rows, beyond which binary64 arithmetic could misplace the tenth): \<^verbatim>\<open>total_ratings\<close>
  is the number of the post's rating rows; \<^verbatim>\<open>avg_rating\<close> is null exactly when there
  is none; otherwise it is the double nearest to a tenth \<open>k / 10\<close> that is a nearest
  tenth of the arithmetic mean of the scores (at most \<open>1 / 20\<close> away from it), which is
  the mean rounded to one decimal place; and the \<^verbatim>\<open>reactions\<close> dictionary has, for
  every emoji string, its number of occurrences among the post's reactions, with no key
  for a string that does not occur. In particular the scores 8, 6, 10 give
  \<^verbatim>\<open>avg_rating\<close> 8.0 and \<^verbatim>\<open>total_ratings\<close> 3, and the reactions fire, fire, heart
  eyes (in any order) give the dictionary with fire at 2 and heart eyes at 1.
\<close>

theorem post_stats_derived:
  assumes "reachable sha s"
    and "length (filter (\<lambda>r. r_post_id r = pid) (ratings s)) < 2 ^ 45"
  shows "let rs = filter (\<lambda>r. r_post_id r = pid) (ratings s);
             es = map emoji (filter (\<lambda>x. x_post_id x = pid) (reactions s));
             st = post_stats pid s
         in total_ratings st = length rs \<and>
            (avg_rating st = None) = (rs = []) \<and>
            (rs \<noteq> [] \<longrightarrow>
               (\<exists>k :: int. avg_rating st = Some (double_of_rat (of_int k / 10)) \<and>
                  \<bar>of_int k / 10 - (of_int (sum_list (map score rs)) / of_int (int (length rs)) :: rat)\<bar>
                    \<le> 1 / 20)) \<and>
            (\<forall>e. reactions_of st e =
               (if count_list es e = 0 then None else Some (count_list es e))) \<and>
            (map score rs = [8, 6, 10] \<longrightarrow> avg_rating st = Some 8 \<and> total_ratings st = 3) \<and>
            (mset es = {#fire, fire, heart_eyes#} \<longrightarrow>
               reactions_of st = [fire \<mapsto> 2, heart_eyes \<mapsto> 1])"
proof -
  define rs where "rs = filter (\<lambda>r. r_post_id r = pid) (ratings s)"
  define es where "es = map emoji (filter (\<lambda>x. x_post_id x = pid) (reactions s))"
  define st where "st = post_stats pid s"
  have avg: "avg_rating st =
      (case sql_avg (map score rs) of None \<Rightarrow> None
       | Some a \<Rightarrow> if a = 0 then None else Some (py_round a 1))"
    and tot: "total_ratings st = length rs"
    and rea: "reactions_of st = map_of (group_count es)"
    by (simp_all add: st_def rs_def es_def post_stats_def Let_def)
  have sc: "list_all (\<lambda>x. 1 \<le> x \<and> x \<le> 10) (map score rs)"
    unfolding rs_def using assms(1) by (rule reachable_ratings)
  from assms(2) have len: "length (map score rs) < 2 ^ 45" by (simp add: rs_def)
  have tenth: "\<exists>k :: int. avg_rating st = Some (double_of_rat (of_int k / 10)) \<and>
      \<bar>of_int k / 10 - (of_int (sum_list (map score rs)) / of_int (int (length rs)) :: rat)\<bar>
        \<le> 1 / 20" if "rs \<noteq> []"
  proof -
    from that have "map score rs \<noteq> []" by simp
    from avg_rating_nearest_tenth [OF this sc len] obtain a k where
      "sql_avg (map score rs) = Some a" "a \<noteq> 0"
      "py_round a 1 = double_of_rat (of_int k / 10)"
      "\<bar>of_int k / 10 - (of_int (sum_list (map score rs)) /
          of_int (int (length (map score rs))) :: rat)\<bar> \<le> 1 / 20"
      by blast
    then show ?thesis by (auto simp: avg)
  qed
  have none: "(avg_rating st = None) = (rs = [])"
  proof (cases "rs = []")
    case True
    then show ?thesis by (simp add: avg sql_avg_def)
  next
    case False
    with tenth show ?thesis by auto
  qed
  have cnt: "reactions_of st e =
      (if count_list es e = 0 then None else Some (count_list es e))" for e
    by (simp only: rea map_of_group_count)
  have ex1: "avg_rating st = Some 8 \<and> total_ratings st = 3" if "map score rs = [8, 6, 10]"
  proof -
    from that have "length (map score rs) = 3" by simp
    then have "length rs = 3" by simp
    with that show ?thesis
      by (simp add: avg tot sql_avg_example py_round_example [unfolded One_nat_def])
  qed
  have ex2: "reactions_of st = [fire \<mapsto> 2, heart_eyes \<mapsto> 1]"
    if m: "mset es = {#fire, fire, heart_eyes#}"
  proof (rule ext)
    fix e
    have ne: "fire \<noteq> heart_eyes" by (simp add: fire_def heart_eyes_def)
    have "count_list es e = count (mset es) e" by (simp add: count_mset)
    also have "\<dots> = count {#fire, fire, heart_eyes#} e" by (simp only: m)
    finally have "count_list es e =
        (if e = fire then 2 else 0) + (if e = heart_eyes then 1 else 0)"
      by simp
    with ne show "reactions_of st e = [fire \<mapsto> 2, heart_eyes \<mapsto> 1] e"
      by (auto simp: cnt)
  qed
  from tot none tenth cnt ex1 ex2 show ?thesis
    unfolding Let_def rs_def [symmetric] es_def [symmetric] st_def [symmetric]
    by blast
qed

lemma reachable_glow_post: "reachable byte_sum glow_post"
  unfolding glow_post_def foldl.simps
  by (intro reachable.step reachable_one_post)

lemma glow_post_tables:
  "map (\<lambda>r. (r_post_id r, score r)) (ratings glow_post) =
     [(str_uuid 1, 8), (str_uuid 1, 6), (str_uuid 1, 10)]"
  "map (\<lambda>x. (x_post_id x, emoji x)) (reactions glow_post) =
     [(str_uuid 1, fire), (str_uuid 1, heart_eyes), (str_uuid 1, fire)]"
  by (simp_all add: glow_post_def one_post_eq rate_post_def react_post_def select_post_def
        insert_rating_def insert_reaction_def Let_def)

lemma glow_post_scores:
  "map score (filter (\<lambda>r. r_post_id r = str_uuid 1) (ratings glow_post)) = [8, 6, 10]"
proof -
  have "map snd (filter (\<lambda>p. fst p = str_uuid 1)
          (map (\<lambda>r. (r_post_id r, score r)) (ratings glow_post))) = [8, 6, 10]"
    by (simp add: glow_post_tables)
  then show ?thesis by (simp add: filter_map comp_def)
qed

lemma glow_post_emoji:
  "map emoji (filter (\<lambda>x. x_post_id x = str_uuid 1) (reactions glow_post)) =
     [fire, heart_eyes, fire]"
proof -
  have "map snd (filter (\<lambda>p. fst p = str_uuid 1)
          (map (\<lambda>x. (x_post_id x, emoji x)) (reactions glow_post))) = [fire, heart_eyes, fire]"
    by (simp add: glow_post_tables)
  then show ?thesis by (simp add: filter_map comp_def)
qed

text \<open>
  The sample post after the ratings 8, 6, 10 and the reactions fire, heart eyes, fire;
  and the sample post before any rating.
\<close>

theorem post_stats_derived_witness:
  "avg_rating (post_stats (str_uuid 1) glow_post) = Some 8 \<and>
   total_ratings (post_stats (str_uuid 1) glow_post) = 3 \<and>
   reactions_of (post_stats (str_uuid 1) glow_post) = [fire \<mapsto> 2, heart_eyes \<mapsto> 1] \<and>
   avg_rating (post_stats (str_uuid 1) one_post) = None \<and>
   total_ratings (post_stats (str_uuid 1) one_post) = 0"
proof -
  have l: "length (filter (\<lambda>r. r_post_id r = str_uuid 1) (ratings glow_post)) < 2 ^ 45"
    using arg_cong [OF glow_post_scores, of length] by simp
  have l1: "length (filter (\<lambda>r. r_post_id r = str_uuid 1) (ratings one_post)) < 2 ^ 45"
    by (simp add: ratings_one_post)
  have m: "mset (map emoji (filter (\<lambda>x. x_post_id x = str_uuid 1) (reactions glow_post))) =
      {#fire, fire, heart_eyes#}"
    by (simp add: glow_post_emoji)
  from post_stats_derived [OF reachable_glow_post l] glow_post_scores m
  have "avg_rating (post_stats (str_uuid 1) glow_post) = Some 8 \<and>
        total_ratings (post_stats (str_uuid 1) glow_post) = 3 \<and>
        reactions_of (post_stats (str_uuid 1) glow_post) = [fire \<mapsto> 2, heart_eyes \<mapsto> 1]"
    unfolding Let_def by blast
  moreover from post_stats_derived [OF reachable_one_post l1]
  have "avg_rating (post_stats (str_uuid 1) one_post) = None \<and>
        total_ratings (post_stats (str_uuid 1) one_post) = 0"
    unfolding Let_def by (simp add: ratings_one_post)
  ultimately show ?thesis by blast
qed

end
